theory Spec2Isabelle
  imports Complex_Main
begin

section \<open>Python values used by the wrapper\<close>

text \<open>
  Exceptions are values. \<open>IndexError\<close>, \<open>ValueError\<close> and \<open>AttributeError\<close> are the
  built-in exceptions that the statements of \<^verbatim>\<open>rnafold.py\<close> raise; \<open>StateError\<close>,
  \<open>TimeoutError\<close>, \<open>ProcessFailure\<close> and \<open>FormatError\<close> are the error kinds of the
  specification's taxonomy.
\<close>

datatype error =
    StateError | TimeoutError | ProcessFailure | FormatError
  | IndexError | ValueError | AttributeError

text \<open>
  A Python float is modelled by the decimal value it was read from: \<open>Finite q\<close> stands
  for the double nearest to the rational \<open>q\<close>. Two floats read from decimals of the same
  value are the same double, so equality of \<open>Finite\<close> values implies equality of the floats
  (\<^verbatim>\<open>float("-1.30") == -1.3\<close>).
\<close>

datatype pyfloat = Finite rat | PosInf | NegInf | NaN

fun negate :: "pyfloat \<Rightarrow> pyfloat" where
  "negate (Finite q) = Finite (- q)"
| "negate PosInf = NegInf"
| "negate NegInf = PosInf"
| "negate NaN = NaN"

subsection \<open>\<^verbatim>\<open>str.splitlines\<close>\<close>

text \<open>
  Strings are lists of characters with code points below 256. The line boundaries of
  \<^verbatim>\<open>str.splitlines()\<close> in that range are LF, VT, FF, CR, FS, GS, RS and NEL, and CR LF
  counts as one boundary. A boundary ends the current line even when it is empty; the
  text after the last boundary is a line only when it is not empty.
\<close>

definition is_linebreak :: "char \<Rightarrow> bool" where
  "is_linebreak c \<longleftrightarrow>
     c \<in> {CHR 0x0A, CHR 0x0B, CHR 0x0C, CHR 0x0D, CHR 0x1C, CHR 0x1D, CHR 0x1E, CHR 0x85}"

fun splitlines_from :: "string \<Rightarrow> string \<Rightarrow> string list" where
  "splitlines_from cur [] = (if cur = [] then [] else [rev cur])"
| "splitlines_from cur (c # cs) =
     (if c = CHR 0x0D then
        (case cs of
           [] \<Rightarrow> [rev cur]
         | d # ds \<Rightarrow>
             if d = CHR 0x0A then rev cur # splitlines_from [] ds
             else rev cur # splitlines_from [] (d # ds))
      else if is_linebreak c then rev cur # splitlines_from [] cs
      else splitlines_from (c # cur) cs)"

definition splitlines :: "string \<Rightarrow> string list" where
  "splitlines s = splitlines_from [] s"

subsection \<open>\<^verbatim>\<open>str.split(" ", maxsplit=1)\<close> and the slice \<^verbatim>\<open>[1:-1]\<close>\<close>

definition split_space1 :: "string \<Rightarrow> string list" where
  "split_space1 s =
     (if CHR '' '' \<in> set s
      then [takeWhile (\<lambda>c. c \<noteq> CHR '' '') s, tl (dropWhile (\<lambda>c. c \<noteq> CHR '' '') s)]
      else [s])"

definition slice_1_m1 :: "string \<Rightarrow> string" where
  "slice_1_m1 s = butlast (tl s)"

subsection \<open>\<^verbatim>\<open>float(str)\<close>\<close>

text \<open>
  \<^verbatim>\<open>float\<close> strips surrounding whitespace, removes underscores that stand between two
  digits (any other underscore is an error), reads an optional sign and then either a
  decimal number with an optional exponent or one of \<^verbatim>\<open>inf\<close>, \<^verbatim>\<open>infinity\<close>, \<^verbatim>\<open>nan\<close> in
  any case. The whole string has to be consumed; everything else raises \<open>ValueError\<close>.
\<close>

definition is_space :: "char \<Rightarrow> bool" where
  "is_space c \<longleftrightarrow>
     c \<in> {CHR 0x09, CHR 0x0A, CHR 0x0B, CHR 0x0C, CHR 0x0D,
          CHR 0x1C, CHR 0x1D, CHR 0x1E, CHR 0x1F, CHR 0x20, CHR 0x85, CHR 0xA0}"

definition strip :: "string \<Rightarrow> string" where
  "strip s = rev (dropWhile is_space (rev (dropWhile is_space s)))"

definition is_digit :: "char \<Rightarrow> bool" where
  "is_digit c \<longleftrightarrow> (48::nat) \<le> of_char c \<and> of_char c \<le> (57::nat)"

fun strip_underscores :: "char \<Rightarrow> string \<Rightarrow> string option" where
  "strip_underscores prev [] = (if prev = CHR ''_'' then None else Some [])"
| "strip_underscores prev (c # cs) =
     (if c = CHR ''_'' then
        (if is_digit prev then strip_underscores c cs else None)
      else if prev = CHR ''_'' \<and> \<not> is_digit c then None
      else map_option ((#) c) (strip_underscores c cs))"

definition digits_val :: "string \<Rightarrow> nat" where
  "digits_val ds = foldl (\<lambda>n c. 10 * n + (of_char c - 48)) 0 ds"

definition split_sign :: "string \<Rightarrow> bool \<times> string" where
  "split_sign s =
     (case s of
        [] \<Rightarrow> (False, [])
      | c # cs \<Rightarrow>
          if c = CHR ''-'' then (True, cs)
          else if c = CHR ''+'' then (False, cs)
          else (False, c # cs))"

definition parse_exponent :: "string \<Rightarrow> int option" where
  "parse_exponent s =
     (case s of
        [] \<Rightarrow> Some 0
      | c # cs \<Rightarrow>
          if c = CHR ''e'' \<or> c = CHR ''E'' then
            (case split_sign cs of (neg, ds) \<Rightarrow>
               if ds \<noteq> [] \<and> list_all is_digit ds
               then Some (if neg then - int (digits_val ds) else int (digits_val ds))
               else None)
          else None)"

definition scale10 :: "nat \<Rightarrow> int \<Rightarrow> rat" where
  "scale10 m e = (if 0 \<le> e then of_nat m * 10 ^ nat e else of_nat m / 10 ^ nat (- e))"

definition parse_number :: "string \<Rightarrow> rat option" where
  "parse_number s =
     (let ip = takeWhile is_digit s;
          r1 = dropWhile is_digit s;
          has_point = (r1 \<noteq> [] \<and> hd r1 = CHR ''.'');
          fp = (if has_point then takeWhile is_digit (tl r1) else []);
          r2 = (if has_point then dropWhile is_digit (tl r1) else r1)
      in if ip = [] \<and> fp = [] then None
         else (case parse_exponent r2 of
                 None \<Rightarrow> None
               | Some e \<Rightarrow> Some (scale10 (digits_val (ip @ fp)) (e - int (length fp)))))"

definition lower :: "char \<Rightarrow> char" where
  "lower c = (if (65::nat) \<le> of_char c \<and> of_char c \<le> (90::nat)
              then char_of (of_char c + (32::nat)) else c)"

definition parse_inf_or_nan :: "string \<Rightarrow> pyfloat option" where
  "parse_inf_or_nan s =
     (let t = map lower s
      in if t = ''inf'' \<or> t = ''infinity'' then Some PosInf
         else if t = ''nan'' then Some NaN
         else None)"

definition py_float :: "string \<Rightarrow> error + pyfloat" where
  "py_float s =
     (case strip_underscores (CHR 0x00) (strip s) of
        None \<Rightarrow> Inl ValueError
      | Some t \<Rightarrow>
          (case split_sign t of (neg, body) \<Rightarrow>
             (case parse_number body of
                Some q \<Rightarrow> Inr (Finite (if neg then - q else q))
              | None \<Rightarrow>
                  (case parse_inf_or_nan body of
                     Some f \<Rightarrow> Inr (if neg then negate f else f)
                   | None \<Rightarrow> Inl ValueError))))"

section \<open>The application object\<close>

text \<open>
  Modelled from the spec: \<^verbatim>\<open>AppState\<close> is imported from the module
  \<^verbatim>\<open>biotite.application.application\<close>, which is not among the sources. The states are
  those of the specification's life cycle (CREATED, RUNNING, FINISHED, JOINED and the
  terminal FAILED).
\<close>

datatype AppState = CREATED | RUNNING | FINISHED | JOINED | FAILED

text \<open>
  The FASTA file holds the sequences of its records (the specification speaks of a minimal
  single-sequence record and gives no header). A spawned process is described by the
  command, the argument list and what is piped to standard input.
\<close>

type_synonym FastaFile = "string list"

record launch =
  command :: string
  args :: "string list"
  stdin_payload :: "FastaFile option"

text \<open>
  The instance attributes of \<^verbatim>\<open>RNAfoldApp\<close>. An attribute that has not been assigned yet
  is \<open>None\<close>; reading it raises \<open>AttributeError\<close>. The attributes \<open>free_energy\<close>,
  \<open>dotbracket\<close>, \<open>mfe\<close> and \<open>temperature\<close> are \<^verbatim>\<open>_free_energy\<close>, \<^verbatim>\<open>_dotbracket\<close>,
  \<^verbatim>\<open>_mfe\<close> and \<^verbatim>\<open>_temperature\<close> of \<^verbatim>\<open>rnafold.py\<close>; no statement of \<^verbatim>\<open>rnafold.py\<close>
  assigns \<^verbatim>\<open>_mfe\<close>. The other attributes are the job attributes of the specification's
  data model (state, command path, argument list, input payload, spawned process,
  captured output), kept by the absent base classes.
\<close>

record RNAfoldApp =
  app_state :: AppState
  bin_path :: string
  arguments :: "string list"
  fasta_file :: FastaFile
  base_temperature :: int
  temperature :: "string option"
  process :: "launch option"
  captured_stdout :: string
  captured_stderr :: string
  free_energy :: "pyfloat option"
  dotbracket :: "string option"
  mfe :: "pyfloat option"

definition getattr :: "'a option \<Rightarrow> error + 'a" where
  "getattr a = (case a of None \<Rightarrow> Inl AttributeError | Some v \<Rightarrow> Inr v)"

text \<open>
  Modelled from the spec: the decorator \<^verbatim>\<open>requires_state\<close> is imported from the absent
  module \<^verbatim>\<open>biotite.application.application\<close>. By the specification the decorated
  operation fails with \<open>StateError\<close> when the current state is not one of the required
  states, and runs otherwise.
\<close>

definition requires_state :: "AppState set \<Rightarrow> RNAfoldApp \<Rightarrow> error option" where
  "requires_state required self =
     (if app_state self \<in> required then None else Some StateError)"

subsection \<open>\<^verbatim>\<open>RNAfoldApp.evaluate\<close>\<close>

text \<open>
  Modelled from the spec: \<^verbatim>\<open>get_stdout\<close> and the inherited \<^verbatim>\<open>evaluate\<close> that
  \<^verbatim>\<open>super().evaluate()\<close> calls belong to absent base classes. By the specification the
  captured standard output is an attribute of the job, read once the process has exited;
  here \<^verbatim>\<open>join\<close> stores it before it calls \<^verbatim>\<open>evaluate\<close>.
\<close>

definition get_stdout :: "RNAfoldApp \<Rightarrow> string" where
  "get_stdout self = captured_stdout self"

text \<open>
  \<^verbatim>\<open>RNAfoldApp.evaluate\<close> of \<^verbatim>\<open>rnafold.py\<close>. \<^verbatim>\<open>lines[2]\<close> raises \<open>IndexError\<close> when there
  are fewer than three lines; the assignment of the split to two names raises
  \<open>ValueError\<close> unless the split has exactly two parts; \<^verbatim>\<open>float\<close> raises \<open>ValueError\<close>. The
  two attribute assignments are the last statements, so an exception leaves the
  attributes as they were.
\<close>

definition evaluate :: "RNAfoldApp \<Rightarrow> error + RNAfoldApp" where
  "evaluate self =
     (let lines = splitlines (get_stdout self)
      in if length lines \<le> 2 then Inl IndexError
         else
           (let content = lines ! 2
            in case split_space1 content of
                 [db, token] \<Rightarrow>
                   (case py_float (slice_1_m1 token) of
                      Inl e \<Rightarrow> Inl e
                    | Inr f \<Rightarrow> Inr (self\<lparr>free_energy := Some f, dotbracket := Some db\<rparr>))
               | _ \<Rightarrow> Inl ValueError))"

subsection \<open>The result accessors\<close>

text \<open>
  Every accessor returns its result together with the object after the call.
  \<^verbatim>\<open>get_mfe\<close> also takes and returns the list of warnings issued so far.
\<close>

datatype warning_category = DeprecationWarning

type_synonym warning = "warning_category \<times> string"

definition get_free_energy :: "RNAfoldApp \<Rightarrow> (error + pyfloat) \<times> RNAfoldApp" where
  "get_free_energy self =
     (case requires_state {JOINED} self of
        Some e \<Rightarrow> (Inl e, self)
      | None \<Rightarrow> (getattr (free_energy self), self))"

definition get_mfe_message :: string where
  "get_mfe_message =
     [CHR 0x27] @ ''get_mfe()'' @ [CHR 0x27] @ '' is deprecated, use '' @
     [CHR 0x27] @ ''get_free_energy()'' @ [CHR 0x27] @ '' instead''"

definition get_mfe ::
  "RNAfoldApp \<Rightarrow> warning list \<Rightarrow> (error + pyfloat) \<times> RNAfoldApp \<times> warning list" where
  "get_mfe self warnings =
     (case requires_state {JOINED} self of
        Some e \<Rightarrow> (Inl e, self, warnings)
      | None \<Rightarrow>
          (getattr (mfe self), self,
           warnings @ [(DeprecationWarning, get_mfe_message)]))"

definition get_dot_bracket :: "RNAfoldApp \<Rightarrow> (error + string) \<times> RNAfoldApp" where
  "get_dot_bracket self =
     (case requires_state {JOINED} self of
        Some e \<Rightarrow> (Inl e, self)
      | None \<Rightarrow> (getattr (dotbracket self), self))"

text \<open>
  Modelled from the spec: \<^verbatim>\<open>base_pairs_from_dot_bracket\<close> is imported from the absent
  module \<^verbatim>\<open>biotite.structure.dotbracket\<close>. By the specification it scans the notation from
  left to right with a last-in-first-out stack: the index of an opening symbol is pushed,
  a closing symbol pops an index and emits the pair; it fails with \<open>FormatError\<close> when a
  closing symbol finds the stack empty or when indices remain on the stack at the end.
\<close>

fun scan_brackets ::
  "nat \<Rightarrow> nat list \<Rightarrow> (nat \<times> nat) list \<Rightarrow> string \<Rightarrow> error + (nat \<times> nat) list" where
  "scan_brackets pos stack pairs [] = (if stack = [] then Inr pairs else Inl FormatError)"
| "scan_brackets pos stack pairs (c # cs) =
     (if c = CHR ''('' then scan_brackets (Suc pos) (pos # stack) pairs cs
      else if c = CHR '')'' then
        (case stack of
           [] \<Rightarrow> Inl FormatError
         | i # rest \<Rightarrow> scan_brackets (Suc pos) rest (pairs @ [(i, pos)]) cs)
      else scan_brackets (Suc pos) stack pairs cs)"

definition base_pairs_from_dot_bracket :: "string \<Rightarrow> error + (nat \<times> nat) list" where
  "base_pairs_from_dot_bracket notation = scan_brackets 0 [] [] notation"

definition get_base_pairs :: "RNAfoldApp \<Rightarrow> (error + (nat \<times> nat) list) \<times> RNAfoldApp" where
  "get_base_pairs self =
     (case requires_state {JOINED} self of
        Some e \<Rightarrow> (Inl e, self)
      | None \<Rightarrow>
          (case getattr (dotbracket self) of
             Inl e \<Rightarrow> (Inl e, self)
           | Inr db \<Rightarrow> (base_pairs_from_dot_bracket db, self)))"

subsection \<open>Construction and launch\<close>

text \<open>\<^verbatim>\<open>str\<close> of an integer: its decimal digits, with a minus sign when negative.\<close>

fun str_nat :: "nat \<Rightarrow> string" where
  "str_nat n =
     (if n < 10 then [char_of (48 + n)]
      else str_nat (n div 10) @ [char_of (48 + n mod 10)])"

declare str_nat.simps [simp del]

definition str_int :: "int \<Rightarrow> string" where
  "str_int i = (if i < 0 then CHR ''-'' # str_nat (nat (- i)) else str_nat (nat i))"

text \<open>
  Modelled from the spec: \<^verbatim>\<open>FastaFile\<close> and \<^verbatim>\<open>set_sequence\<close> are imported from the absent
  module \<^verbatim>\<open>biotite.sequence.io.fasta\<close>. By the specification the input is a minimal
  single-sequence record.
\<close>

definition FastaFile_new :: FastaFile where
  "FastaFile_new = []"

definition set_sequence :: "FastaFile \<Rightarrow> string \<Rightarrow> FastaFile" where
  "set_sequence file sequence = [sequence]"

text \<open>\<^verbatim>\<open>RNAfoldApp.accepts_stdin\<close> of \<^verbatim>\<open>rnafold.py\<close> returns \<^verbatim>\<open>True\<close>.\<close>

definition accepts_stdin :: bool where
  "accepts_stdin = True"

text \<open>
  Modelled from the spec: the base class \<^verbatim>\<open>BaseFoldApp\<close> (module \<^verbatim>\<open>basefold\<close>) and its
  ancestors are absent. By the specification a new job is in state CREATED with the
  command path and the input payload configured, nothing captured and the parsed-result
  cache unset; \<^verbatim>\<open>set_arguments\<close> configures the argument list; running spawns the process
  with the configured command and arguments and pipes the input to standard input when
  the application accepts it there.
\<close>

definition BaseFoldApp_init :: "FastaFile \<Rightarrow> int \<Rightarrow> string \<Rightarrow> RNAfoldApp" where
  "BaseFoldApp_init fasta temp path =
     \<lparr>app_state = CREATED, bin_path = path, arguments = [], fasta_file = fasta,
      base_temperature = temp, temperature = None, process = None,
      captured_stdout = [], captured_stderr = [],
      free_energy = None, dotbracket = None, mfe = None\<rparr>"

definition set_arguments :: "string list \<Rightarrow> RNAfoldApp \<Rightarrow> RNAfoldApp" where
  "set_arguments as self = self\<lparr>arguments := as\<rparr>"

definition BaseFoldApp_run :: "RNAfoldApp \<Rightarrow> RNAfoldApp" where
  "BaseFoldApp_run self =
     self\<lparr>process := Some \<lparr>command = bin_path self, args = arguments self,
                             stdin_payload = (if accepts_stdin then Some (fasta_file self)
                                              else None)\<rparr>\<rparr>"

text \<open>
  \<^verbatim>\<open>__init__(self, sequence, temperature=37, bin_path="RNAfold")\<close>: an argument that the
  caller leaves out is \<open>None\<close> and takes the default.
\<close>

definition RNAfoldApp_init :: "string \<Rightarrow> int option \<Rightarrow> string option \<Rightarrow> RNAfoldApp" where
  "RNAfoldApp_init sequence temperature_arg bin_path_arg =
     (let temp = (case temperature_arg of None \<Rightarrow> 37 | Some t \<Rightarrow> t);
          path = (case bin_path_arg of None \<Rightarrow> ''RNAfold'' | Some p \<Rightarrow> p);
          fasta = set_sequence FastaFile_new sequence;
          self = BaseFoldApp_init fasta temp path
      in self\<lparr>temperature := Some (str_int temp)\<rparr>)"

text \<open>\<^verbatim>\<open>RNAfoldApp.run\<close>: set the arguments, then run as the base class does.\<close>

definition run :: "RNAfoldApp \<Rightarrow> RNAfoldApp" where
  "run self = BaseFoldApp_run (set_arguments [''--noPS''] self)"

subsection \<open>Life cycle\<close>

text \<open>
  Modelled from the spec: \<^verbatim>\<open>start\<close> and \<^verbatim>\<open>join\<close> are inherited from the absent class
  \<^verbatim>\<open>Application\<close>. By the specification \<^verbatim>\<open>start\<close> requires state CREATED, spawns the
  process and moves to RUNNING. \<^verbatim>\<open>join\<close> without a timeout blocks until the process exits
  (so it does not return when the process never exits: the result \<open>None\<close>), then captures
  the output, checks the exit code and calls \<^verbatim>\<open>evaluate\<close>; the job ends in JOINED, or in
  FAILED when the exit code is not zero or \<^verbatim>\<open>evaluate\<close> fails. The behaviour of the child
  process is the parameter \<open>outcome\<close>: exit code, standard output and standard error, or
  \<open>None\<close> when it never exits.
\<close>

type_synonym outcome = "(int \<times> string \<times> string) option"

definition start :: "RNAfoldApp \<Rightarrow> (error + unit) \<times> RNAfoldApp" where
  "start self =
     (case requires_state {CREATED} self of
        Some e \<Rightarrow> (Inl e, self)
      | None \<Rightarrow> (Inr (), (run self)\<lparr>app_state := RUNNING\<rparr>))"

definition join :: "outcome \<Rightarrow> RNAfoldApp \<Rightarrow> ((error + unit) \<times> RNAfoldApp) option" where
  "join outcome self =
     (case requires_state {RUNNING, FINISHED} self of
        Some e \<Rightarrow> Some (Inl e, self)
      | None \<Rightarrow>
          (case outcome of
             None \<Rightarrow> None
           | Some (code, out, err) \<Rightarrow>
               (let finished = self\<lparr>app_state := FINISHED, captured_stdout := out,
                                    captured_stderr := err\<rparr>
                in if code \<noteq> 0 then Some (Inl ProcessFailure, finished\<lparr>app_state := FAILED\<rparr>)
                   else
                     (case evaluate finished of
                        Inl e \<Rightarrow> Some (Inl e, finished\<lparr>app_state := FAILED\<rparr>)
                      | Inr evaluated \<Rightarrow> Some (Inr (), evaluated\<lparr>app_state := JOINED\<rparr>)))))"

subsection \<open>\<^verbatim>\<open>RNAfoldApp.compute_secondary_structure\<close>\<close>

definition compute_secondary_structure ::
  "outcome \<Rightarrow> string \<Rightarrow> string option \<Rightarrow> (error + string \<times> pyfloat) option" where
  "compute_secondary_structure outcome sequence bin_path_arg =
     (let path = (case bin_path_arg of None \<Rightarrow> ''RNAfold'' | Some p \<Rightarrow> p);
          app = RNAfoldApp_init sequence None (Some path)
      in case start app of
           (Inl e, _) \<Rightarrow> Some (Inl e)
         | (Inr _, started) \<Rightarrow>
             (case join outcome started of
                None \<Rightarrow> None
              | Some (Inl e, _) \<Rightarrow> Some (Inl e)
              | Some (Inr _, joined) \<Rightarrow>
                  (case get_dot_bracket joined of
                     (Inl e, _) \<Rightarrow> Some (Inl e)
                   | (Inr db, app3) \<Rightarrow>
                       (case get_free_energy app3 of
                          (Inl e, _) \<Rightarrow> Some (Inl e)
                        | (Inr fe, _) \<Rightarrow> Some (Inr (db, fe))))))"

section \<open>The trajectory file adapter\<close>

text \<open>
  \<^verbatim>\<open>XTCFile.output_value_index\<close>: a Python function that reaches its end without a
  \<^verbatim>\<open>return\<close> returns \<^verbatim>\<open>None\<close>.
\<close>

definition output_value_index :: "string \<Rightarrow> nat option" where
  "output_value_index v =
     (if v = ''coord'' then Some 0
      else if v = ''time'' then Some 1
      else if v = ''box'' then Some 3
      else None)"

section \<open>Well-nested notations\<close>

text \<open>
  A closing symbol is unmatched when some prefix of the notation holds more closing than
  opening symbols; opening symbols remain unmatched when no prefix does and the whole
  notation holds more opening than closing symbols.
\<close>

definition opens :: "string \<Rightarrow> nat" where
  "opens s = length (filter (\<lambda>c. c = CHR ''('') s)"

definition closes :: "string \<Rightarrow> nat" where
  "closes s = length (filter (\<lambda>c. c = CHR '')'') s)"

definition unmatched_close :: "string \<Rightarrow> bool" where
  "unmatched_close s \<longleftrightarrow> (\<exists>n\<le>length s. opens (take n s) < closes (take n s))"

definition unmatched_open :: "string \<Rightarrow> bool" where
  "unmatched_open s \<longleftrightarrow> \<not> unmatched_close s \<and> closes s < opens s"

section \<open>Float literals\<close>

text \<open>
  The strings that \<^verbatim>\<open>float\<close> accepts, as the language reference describes them and
  without reference to the parser above. A literal is a token surrounded by whitespace.
  In the token every underscore stands between two digits, and the token without its
  underscores is an optional sign followed by a number or by one of the words
  \<^verbatim>\<open>inf\<close>, \<^verbatim>\<open>infinity\<close> and \<^verbatim>\<open>nan\<close> in any case. A number is a digit string with an
  optional point and fraction (at least one digit in all), followed by an optional
  exponent: \<^verbatim>\<open>e\<close> or \<^verbatim>\<open>E\<close>, an optional sign and at least one digit.
\<close>

definition sign_prefix :: "string \<Rightarrow> bool" where
  "sign_prefix sg \<longleftrightarrow> sg = [] \<or> sg = ''+'' \<or> sg = ''-''"

definition exponent_part :: "string \<Rightarrow> bool" where
  "exponent_part x \<longleftrightarrow>
     x = [] \<or>
     (\<exists>m sg ds. x = m # sg @ ds \<and> (m = CHR ''e'' \<or> m = CHR ''E'') \<and> sign_prefix sg \<and>
        ds \<noteq> [] \<and> list_all is_digit ds)"







section \<open>Sample runs\<close>

text \<open>
  A captured standard output in the format of the external tool: a header line, the
  echoed sequence, and a result line. The sequence and the result line of \<open>sample_stdout\<close>
  are those of the examples in the docstrings of \<^verbatim>\<open>rnafold.py\<close>; \<open>unspaced_stdout\<close>
  has the result line written without the space between notation and parenthesis.
\<close>

definition sample_sequence :: string where
  "sample_sequence = ''CGACGTAGATGCTAGCTGACTCGATGC''"

definition stdout_with :: "string \<Rightarrow> string" where
  "stdout_with line =
     ''>sequence'' @ [CHR 0x0A] @ ''CGACGUAGAUGCUAGCUGACUCGAUGC'' @ [CHR 0x0A] @
     line @ [CHR 0x0A]"

definition sample_stdout :: string where
  "sample_stdout = stdout_with ''(((.((((.......)).))))).... ( -1.30)''"

definition unspaced_stdout :: string where
  "unspaced_stdout = stdout_with ''(((.((((.......)).)))))....( -1.30)''"

definition sample_started :: RNAfoldApp where
  "sample_started = snd (start (RNAfoldApp_init sample_sequence None None))"

definition finished_with :: "string \<Rightarrow> RNAfoldApp" where
  "finished_with out = sample_started\<lparr>app_state := FINISHED, captured_stdout := out\<rparr>"

definition sample_joined :: RNAfoldApp where
  "sample_joined =
     (case join (Some (0, sample_stdout, [])) sample_started of
        Some (_, app) \<Rightarrow> app
      | None \<Rightarrow> sample_started)"


section \<open>Evaluation of the building blocks\<close>

lemmas float_defs =
  py_float_def strip_def is_space_def split_sign_def parse_number_def is_digit_def
  parse_exponent_def scale10_def digits_val_def parse_inf_or_nan_def lower_def


lemma splitlines_sample:
  "splitlines sample_stdout =
     [''>sequence'', ''CGACGUAGAUGCUAGCUGACUCGAUGC'', ''(((.((((.......)).))))).... ( -1.30)'']"
  by (simp add: splitlines_def sample_stdout_def stdout_with_def is_linebreak_def)

lemma splitlines_unspaced:
  "splitlines unspaced_stdout =
     [''>sequence'', ''CGACGUAGAUGCUAGCUGACUCGAUGC'', ''(((.((((.......)).)))))....( -1.30)'']"
  by (simp add: splitlines_def unspaced_stdout_def stdout_with_def is_linebreak_def)



lemma split_spaced:
  "split_space1 ''(((.((((.......)).))))).... ( -1.30)'' =
     [''(((.((((.......)).)))))....'', ''( -1.30)'']"
  by (simp add: split_space1_def)

lemma split_unspaced:
  "split_space1 ''(((.((((.......)).)))))....( -1.30)'' =
     [''(((.((((.......)).)))))....('', ''-1.30)'']"
  by (simp add: split_space1_def)

lemma float_spaced: "py_float (slice_1_m1 ''( -1.30)'') = Inr (Finite (- 13 / 10))"
  by (simp add: slice_1_m1_def float_defs)

lemma float_unspaced: "py_float (slice_1_m1 ''-1.30)'') = Inr (Finite (13 / 10))"
  by (simp add: slice_1_m1_def float_defs)



lemma str_int_37: "str_int 37 = ''37''"
  by code_simp

section \<open>Facts about \<^verbatim>\<open>evaluate\<close> and the life cycle\<close>


lemma evaluate_line:
  "2 < length (splitlines (captured_stdout self)) \<Longrightarrow>
   evaluate self =
     (case split_space1 (splitlines (captured_stdout self) ! 2) of
        [db, token] \<Rightarrow>
          (case py_float (slice_1_m1 token) of
             Inl e \<Rightarrow> Inl e
           | Inr f \<Rightarrow> Inr (self\<lparr>free_energy := Some f, dotbracket := Some db\<rparr>))
      | _ \<Rightarrow> Inl ValueError)"
  by (simp add: evaluate_def get_stdout_def Let_def)



lemma evaluate_keeps:
  "evaluate self = Inr self' \<Longrightarrow> mfe self' = mfe self \<and> app_state self' = app_state self"
  by (auto simp: evaluate_def Let_def split: if_splits list.splits sum.splits)

lemma evaluate_sets:
  "evaluate self = Inr self' \<Longrightarrow> free_energy self' \<noteq> None \<and> dotbracket self' \<noteq> None"
  by (auto simp: evaluate_def Let_def split: if_splits list.splits sum.splits)

lemma evaluate_sample:
  "captured_stdout self = sample_stdout \<Longrightarrow>
   evaluate self = Inr (self\<lparr>free_energy := Some (Finite (- 13 / 10)),
                             dotbracket := Some ''(((.((((.......)).)))))....''\<rparr>)"
  by (simp add: evaluate_line splitlines_sample split_spaced float_spaced)

lemma evaluate_unspaced:
  "captured_stdout self = unspaced_stdout \<Longrightarrow>
   evaluate self = Inr (self\<lparr>free_energy := Some (Finite (13 / 10)),
                             dotbracket := Some ''(((.((((.......)).)))))....(''\<rparr>)"
  by (simp add: evaluate_line splitlines_unspaced split_unspaced float_unspaced)

lemma start_init:
  "start (RNAfoldApp_init s t b) = (Inr (), (run (RNAfoldApp_init s t b))\<lparr>app_state := RUNNING\<rparr>)"
  by (simp add: start_def requires_state_def RNAfoldApp_init_def BaseFoldApp_init_def Let_def)

lemma snd_start_init:
  "snd (start (RNAfoldApp_init s t b)) = (run (RNAfoldApp_init s t b))\<lparr>app_state := RUNNING\<rparr>"
  by (simp add: start_init)

lemma mfe_started: "mfe (snd (start (RNAfoldApp_init s t b))) = None"
  unfolding snd_start_init
  by (simp add: run_def BaseFoldApp_run_def set_arguments_def RNAfoldApp_init_def
      BaseFoldApp_init_def Let_def)

lemma sample_started_state: "app_state sample_started = RUNNING"
  by (simp add: sample_started_def start_init)

lemma sample_started_mfe: "mfe sample_started = None"
  unfolding sample_started_def by (rule mfe_started)


lemma join_succeeds:
  "join outcome self = Some (Inr (), joined) \<Longrightarrow>
   app_state joined = JOINED \<and> mfe joined = mfe self \<and>
   free_energy joined \<noteq> None \<and> dotbracket joined \<noteq> None"
  by (auto simp: join_def requires_state_def Let_def
      split: if_splits option.splits sum.splits prod.splits
      dest: evaluate_keeps evaluate_sets)

lemma join_sample:
  "join (Some (0, sample_stdout, [])) sample_started =
     Some (Inr (), sample_started\<lparr>app_state := JOINED, captured_stdout := sample_stdout,
              captured_stderr := [], free_energy := Some (Finite (- 13 / 10)),
              dotbracket := Some ''(((.((((.......)).)))))....''\<rparr>)"
  by (simp add: join_def requires_state_def sample_started_state evaluate_sample)

lemma sample_joined_eq:
  "sample_joined =
     sample_started\<lparr>app_state := JOINED, captured_stdout := sample_stdout,
        captured_stderr := [], free_energy := Some (Finite (- 13 / 10)),
        dotbracket := Some ''(((.((((.......)).)))))....''\<rparr>"
  by (simp add: sample_joined_def join_sample)

section \<open>Parsing the result line\<close>

text \<open>
  Claim C1, as amended. For every captured standard output whose third line is the
  notation, one space and the parenthesised energy,
  \<^verbatim>\<open>(((.((((.......)).))))).... ( -1.30)\<close>, the parsing step of \<^verbatim>\<open>evaluate\<close> stores the free
  energy \<open>-1.3\<close> and the notation \<^verbatim>\<open>(((.((((.......)).)))))....\<close> of 27 symbols. When the
  third line is written without that space, \<^verbatim>\<open>(((.((((.......)).)))))....( -1.30)\<close>, the first
  space of the line is the one inside the parentheses: the notation keeps the opening
  parenthesis, the token is \<^verbatim>\<open>-1.30)\<close>, the slice drops the sign, and the stored free
  energy is \<open>1.3\<close>.
\<close>

theorem evaluate_result_line:
  "2 < length (splitlines (captured_stdout self)) \<Longrightarrow>
   (splitlines (captured_stdout self) ! 2 = ''(((.((((.......)).))))).... ( -1.30)'' \<longrightarrow>
      evaluate self = Inr (self\<lparr>free_energy := Some (Finite (- 13 / 10)),
                                dotbracket := Some ''(((.((((.......)).)))))....''\<rparr>)) \<and>
   (splitlines (captured_stdout self) ! 2 = ''(((.((((.......)).)))))....( -1.30)'' \<longrightarrow>
      evaluate self = Inr (self\<lparr>free_energy := Some (Finite (13 / 10)),
                                dotbracket := Some ''(((.((((.......)).)))))....(''\<rparr>))"
  by (simp add: evaluate_line split_spaced split_unspaced float_spaced float_unspaced)

theorem evaluate_result_line_witness:
  "evaluate (finished_with sample_stdout) =
     Inr ((finished_with sample_stdout)\<lparr>free_energy := Some (Finite (- 13 / 10)),
            dotbracket := Some ''(((.((((.......)).)))))....''\<rparr>) \<and>
   evaluate (finished_with unspaced_stdout) =
     Inr ((finished_with unspaced_stdout)\<lparr>free_energy := Some (Finite (13 / 10)),
            dotbracket := Some ''(((.((((.......)).)))))....(''\<rparr>)"
  using evaluate_result_line [of "finished_with sample_stdout"]
    evaluate_result_line [of "finished_with unspaced_stdout"]
  by (simp add: finished_with_def splitlines_sample splitlines_unspaced)

text \<open>
  The claim as written fails on the line it quotes: the third line of \<open>unspaced_stdout\<close>
  is that line, and \<^verbatim>\<open>evaluate\<close> stores \<open>1.3\<close> and a notation ending in an opening
  parenthesis, not \<open>-1.3\<close> and the notation with five trailing dots.
\<close>

theorem evaluate_unspaced_line_counterexample:
  "splitlines (captured_stdout (finished_with unspaced_stdout)) ! 2 =
     ''(((.((((.......)).)))))....( -1.30)'' \<and>
   evaluate (finished_with unspaced_stdout) =
     Inr ((finished_with unspaced_stdout)\<lparr>free_energy := Some (Finite (13 / 10)),
            dotbracket := Some ''(((.((((.......)).)))))....(''\<rparr>) \<and>
   evaluate (finished_with unspaced_stdout) \<noteq>
     Inr ((finished_with unspaced_stdout)\<lparr>free_energy := Some (Finite (- 13 / 10)),
            dotbracket := Some ''(((.((((.......)).))))).....''\<rparr>)"
proof -
  have out: "captured_stdout (finished_with unspaced_stdout) = unspaced_stdout"
    by (simp add: finished_with_def)
  have line: "splitlines (captured_stdout (finished_with unspaced_stdout)) ! 2 =
     ''(((.((((.......)).)))))....( -1.30)''"
    by (simp add: out splitlines_unspaced)
  have ev: "evaluate (finished_with unspaced_stdout) =
     Inr ((finished_with unspaced_stdout)\<lparr>free_energy := Some (Finite (13 / 10)),
            dotbracket := Some ''(((.((((.......)).)))))....(''\<rparr>)"
    by (rule evaluate_unspaced [OF out])
  have "free_energy ((finished_with unspaced_stdout)\<lparr>free_energy := Some (Finite (13 / 10)),
            dotbracket := Some ''(((.((((.......)).)))))....(''\<rparr>) \<noteq>
        free_energy ((finished_with unspaced_stdout)\<lparr>free_energy := Some (Finite (- 13 / 10)),
            dotbracket := Some ''(((.((((.......)).))))).....''\<rparr>)"
    by simp
  then have ne: "(finished_with unspaced_stdout)\<lparr>free_energy := Some (Finite (13 / 10)),
            dotbracket := Some ''(((.((((.......)).)))))....(''\<rparr> \<noteq>
        (finished_with unspaced_stdout)\<lparr>free_energy := Some (Finite (- 13 / 10)),
            dotbracket := Some ''(((.((((.......)).))))).....''\<rparr>"
    by metis
  show ?thesis using line ev ne by simp
qed

section \<open>The deprecated accessor\<close>

text \<open>
  Claim C2. After the sample run has been joined, \<^verbatim>\<open>get_free_energy\<close> returns \<open>-1.3\<close>,
  whereas \<^verbatim>\<open>get_mfe\<close> issues its deprecation warning and then reads the attribute
  \<^verbatim>\<open>_mfe\<close>, which \<^verbatim>\<open>evaluate\<close> never assigns: the call raises \<open>AttributeError\<close> instead of
  returning the value of \<^verbatim>\<open>get_free_energy\<close>.
\<close>

theorem get_mfe_sample_run:
  "(case join (Some (0, sample_stdout, [])) sample_started of
      Some (Inr _, joined) \<Rightarrow>
        fst (get_free_energy joined) = Inr (Finite (- 13 / 10)) \<and>
        fst (get_mfe joined []) = Inl AttributeError \<and>
        snd (snd (get_mfe joined [])) = [(DeprecationWarning, get_mfe_message)]
    | _ \<Rightarrow> False)"
  by (simp add: join_sample get_free_energy_def get_mfe_def requires_state_def getattr_def
      sample_started_mfe)

section \<open>Accessors outside the JOINED state\<close>

text \<open>
  Claim C3. In every state other than JOINED each of the four result accessors
  \<^verbatim>\<open>get_free_energy\<close>, \<^verbatim>\<open>get_mfe\<close>, \<^verbatim>\<open>get_dot_bracket\<close> and \<^verbatim>\<open>get_base_pairs\<close> fails with
  \<open>StateError\<close>; it returns no result, leaves the object as it was, and \<^verbatim>\<open>get_mfe\<close> issues
  no warning.
\<close>

theorem accessors_require_joined:
  "app_state self \<noteq> JOINED \<Longrightarrow>
   get_free_energy self = (Inl StateError, self) \<and>
   get_mfe self ws = (Inl StateError, self, ws) \<and>
   get_dot_bracket self = (Inl StateError, self) \<and>
   get_base_pairs self = (Inl StateError, self)"
  by (simp add: get_free_energy_def get_mfe_def get_dot_bracket_def get_base_pairs_def
      requires_state_def)

theorem accessors_require_joined_witness:
  "get_free_energy sample_started = (Inl StateError, sample_started) \<and>
   get_mfe sample_started [] = (Inl StateError, sample_started, []) \<and>
   get_dot_bracket sample_started = (Inl StateError, sample_started) \<and>
   get_base_pairs sample_started = (Inl StateError, sample_started)"
  using accessors_require_joined [of sample_started "[]"]
  by (simp add: sample_started_state)

section \<open>Decoding the notation\<close>

text \<open>
  Claim C5. The stack scan of the notation \<^verbatim>\<open>(((.((((.......)).))))).....\<close> yields exactly
  the base pairs (0,22), (1,21), (2,20), (4,19), (5,18), (6,16), (7,15): these are the
  emitted pairs ordered by their first position (the scan emits a pair at its closing
  symbol, so (7,15) comes first). No pair has a position in the trailing run of unpaired
  symbols, which starts at position 23. \<^verbatim>\<open>get_base_pairs\<close> returns this decoding for a
  joined application that holds the notation.
\<close>

theorem sample_notation_base_pairs:
  "map_sum id (sort_key fst) (base_pairs_from_dot_bracket ''(((.((((.......)).))))).....'') =
     Inr [(0, 22), (1, 21), (2, 20), (4, 19), (5, 18), (6, 16), (7, 15)] \<and>
   map_sum id (filter (\<lambda>(i, j). 23 \<le> i \<or> 23 \<le> j))
     (base_pairs_from_dot_bracket ''(((.((((.......)).))))).....'') = Inr [] \<and>
   get_base_pairs (sample_joined\<lparr>dotbracket := Some ''(((.((((.......)).))))).....''\<rparr>) =
     (base_pairs_from_dot_bracket ''(((.((((.......)).))))).....'',
      sample_joined\<lparr>dotbracket := Some ''(((.((((.......)).))))).....''\<rparr>)"
proof -
  have bp: "base_pairs_from_dot_bracket ''(((.((((.......)).))))).....'' =
      Inr [(7, 15), (6, 16), (5, 18), (4, 19), (2, 20), (1, 21), (0, 22)]"
    by (simp add: base_pairs_from_dot_bracket_def)
  have st: "app_state sample_joined = JOINED" by (simp add: sample_joined_eq)
  show ?thesis
    unfolding bp using st
    by (simp add: get_base_pairs_def requires_state_def getattr_def bp)
qed

section \<open>The parser accepts exactly the float literals\<close>

subsection \<open>Underscores\<close>




subsection \<open>Character facts\<close>



lemma is_digit_not_special:
  "is_digit c \<Longrightarrow> c \<noteq> CHR ''-'' \<and> c \<noteq> CHR ''+'' \<and> c \<noteq> CHR ''.'' \<and> c \<noteq> CHR ''e'' \<and> c \<noteq> CHR ''E''"
  by (auto simp: is_digit_def)


subsection \<open>Signs\<close>

lemma split_sign_snd_decomp: "\<exists>sg. sign_prefix sg \<and> s = sg @ snd (split_sign s)"
  by (cases s) (auto simp: split_sign_def sign_prefix_def)

lemma split_sign_snd_append:
  "sign_prefix sg \<Longrightarrow> body \<noteq> [] \<Longrightarrow> hd body \<noteq> CHR ''-'' \<Longrightarrow> hd body \<noteq> CHR ''+'' \<Longrightarrow>
   snd (split_sign (sg @ body)) = body"
  by (cases body) (auto simp: split_sign_def sign_prefix_def)

subsection \<open>Exponent\<close>

lemma parse_exponent_Cons:
  "parse_exponent (c # cs) = None \<longleftrightarrow>
     \<not> ((c = CHR ''e'' \<or> c = CHR ''E'') \<and> snd (split_sign cs) \<noteq> [] \<and>
        list_all is_digit (snd (split_sign cs)))"
  by (auto simp add: parse_exponent_def split: prod.splits)

lemma parse_exponent_iff': "parse_exponent x \<noteq> None \<longleftrightarrow> exponent_part x"
proof (cases x)
  case Nil
  then show ?thesis by (simp add: parse_exponent_def exponent_part_def)
next
  case (Cons c cs)
  show ?thesis
  proof
    assume "parse_exponent x \<noteq> None"
    with Cons have m: "c = CHR ''e'' \<or> c = CHR ''E''"
      and d: "snd (split_sign cs) \<noteq> []" "list_all is_digit (snd (split_sign cs))"
      by (simp_all add: parse_exponent_Cons)
    from split_sign_snd_decomp [of cs] obtain sg where
      "sign_prefix sg" "cs = sg @ snd (split_sign cs)" by blast
    with m d Cons have "\<exists>m sg ds. x = m # sg @ ds \<and> (m = CHR ''e'' \<or> m = CHR ''E'') \<and>
        sign_prefix sg \<and> ds \<noteq> [] \<and> list_all is_digit ds"
      by (intro exI [of _ c] exI [of _ sg] exI [of _ "snd (split_sign cs)"]) simp
    then show "exponent_part x" by (simp add: exponent_part_def)
  next
    assume "exponent_part x"
    with Cons obtain m sg ds where x: "c # cs = m # sg @ ds"
      and m: "m = CHR ''e'' \<or> m = CHR ''E''" and sg: "sign_prefix sg"
      and ds: "ds \<noteq> []" "list_all is_digit ds"
      by (auto simp: exponent_part_def)
    from ds have "is_digit (hd ds)" by (cases ds) simp_all
    then have "hd ds \<noteq> CHR ''-''" "hd ds \<noteq> CHR ''+''" using is_digit_not_special by blast+
    with sg ds have "snd (split_sign (sg @ ds)) = ds" by (simp add: split_sign_snd_append)
    with x m ds Cons show "parse_exponent x \<noteq> None"
      by (simp add: parse_exponent_Cons)
  qed
qed

lemma parse_exponent_iff: "parse_exponent x = None \<longleftrightarrow> \<not> exponent_part x"
  using parse_exponent_iff' [of x] by blast


subsection \<open>Number\<close>







subsection \<open>Words\<close>




subsection \<open>No whitespace in a literal\<close>











subsection \<open>Signed values\<close>




subsection \<open>Whitespace\<close>




subsection \<open>The parser accepts exactly the literals\<close>





section \<open>Failing output\<close>









section \<open>Malformed notations\<close>

lemma ex_le_Suc_split: "(\<exists>n\<le>Suc k. P n) \<longleftrightarrow> P 0 \<or> (\<exists>m\<le>k. P (Suc m))"
proof
  assume "\<exists>n\<le>Suc k. P n"
  then obtain n where n: "n \<le> Suc k" "P n" by blast
  show "P 0 \<or> (\<exists>m\<le>k. P (Suc m))"
  proof (cases n)
    case 0
    with n show ?thesis by simp
  next
    case (Suc m)
    with n have "m \<le> k" "P (Suc m)" by simp_all
    then show ?thesis by blast
  qed
next
  assume "P 0 \<or> (\<exists>m\<le>k. P (Suc m))"
  then show "\<exists>n\<le>Suc k. P n" by auto
qed

lemma scan_brackets_error_iff:
  "scan_brackets pos stack pairs s = Inl FormatError \<longleftrightarrow>
     (\<exists>n\<le>length s. length stack + opens (take n s) < closes (take n s)) \<or>
     closes s < length stack + opens s"
proof (induction s arbitrary: pos stack pairs)
  case Nil
  then show ?case by (simp add: opens_def closes_def)
next
  case (Cons c cs)
  show ?case
  proof (cases "c = CHR ''(''")
    case True
    then show ?thesis
      using Cons.IH [of "Suc pos" "pos # stack" pairs]
      by (simp add: ex_le_Suc_split opens_def closes_def)
  next
    case False
    note not_open = this
    show ?thesis
    proof (cases "c = CHR '')''")
      case True
      show ?thesis
      proof (cases stack)
        case Nil
        have "opens (take 1 (c # cs)) < closes (take 1 (c # cs))"
          using True by (simp add: opens_def closes_def)
        then have "\<exists>n\<le>length (c # cs).
            length stack + opens (take n (c # cs)) < closes (take n (c # cs))"
          using Nil by (intro exI [of _ 1]) simp
        then show ?thesis using True Nil by simp
      next
        case (Cons i rest)
        then show ?thesis
          using True Cons.IH [of "Suc pos" rest "pairs @ [(i, pos)]"]
          by (simp add: ex_le_Suc_split opens_def closes_def)
      qed
    next
      case False
      then show ?thesis
        using not_open Cons.IH [of "Suc pos" stack pairs]
        by (simp add: ex_le_Suc_split opens_def closes_def)
    qed
  qed
qed

lemma scan_brackets_error_kind: "scan_brackets pos stack pairs s = Inl e \<Longrightarrow> e = FormatError"
  by (induction pos stack pairs s rule: scan_brackets.induct) (auto split: if_splits list.splits)

lemma base_pairs_error_iff:
  "base_pairs_from_dot_bracket s = Inl FormatError \<longleftrightarrow> unmatched_close s \<or> unmatched_open s"
  unfolding base_pairs_from_dot_bracket_def unmatched_close_def unmatched_open_def
  using scan_brackets_error_iff [of 0 "[]" "[]" s] by auto

lemma unmatched_close_sample: "unmatched_close ''.)''"
  unfolding unmatched_close_def by (rule exI [of _ 2]) (simp add: opens_def closes_def)

lemma unmatched_open_sample: "unmatched_open ''(.''"
proof -
  have "closes (take n ''(.'') = 0" for n
    by (auto simp: closes_def filter_empty_conv dest: in_set_takeD)
  then show ?thesis by (simp add: unmatched_open_def unmatched_close_def opens_def closes_def)
qed

lemma sample_joined_state: "app_state sample_joined = JOINED"
  by (simp add: sample_joined_eq)

text \<open>
  Claim C6. For a joined application whose notation contains an unmatched closing symbol
  (some prefix holds more closing than opening symbols, as in \<^verbatim>\<open>.)\<close>), decoding the base
  pairs fails with \<open>FormatError\<close>: no other error and no partial list. It fails with
  \<open>FormatError\<close> as well when opening symbols remain unmatched at the end of the notation.
\<close>

theorem unmatched_notation_fails:
  "app_state self = JOINED \<Longrightarrow> dotbracket self = Some s \<Longrightarrow>
   (unmatched_close s \<longrightarrow> get_base_pairs self = (Inl FormatError, self)) \<and>
   (unmatched_open s \<longrightarrow> get_base_pairs self = (Inl FormatError, self))"
  using base_pairs_error_iff [of s]
  by (simp add: get_base_pairs_def requires_state_def getattr_def)

theorem unmatched_notation_fails_witness:
  "get_base_pairs (sample_joined\<lparr>dotbracket := Some ''.)''\<rparr>) =
     (Inl FormatError, sample_joined\<lparr>dotbracket := Some ''.)''\<rparr>) \<and>
   get_base_pairs (sample_joined\<lparr>dotbracket := Some ''(.''\<rparr>) =
     (Inl FormatError, sample_joined\<lparr>dotbracket := Some ''(.''\<rparr>)"
  using unmatched_notation_fails [of "sample_joined\<lparr>dotbracket := Some ''.)''\<rparr>" "''.)''"]
    unmatched_notation_fails [of "sample_joined\<lparr>dotbracket := Some ''(.''\<rparr>" "''(.''"]
    unmatched_close_sample unmatched_open_sample
  by (simp add: sample_joined_state)

section \<open>The convenience operation\<close>

text \<open>
  Claim C7. For every sequence, binary path and behaviour of the child process,
  \<^verbatim>\<open>compute_secondary_structure\<close> constructs the application, starts it (which succeeds)
  and joins it. When the join succeeds, the operation returns the pair of the notation and
  the free energy, and these are the values that \<^verbatim>\<open>get_dot_bracket\<close> and
  \<^verbatim>\<open>get_free_energy\<close> return on the joined application. When the join fails, the operation
  fails with the same error, and when the join never returns, neither does the operation.
\<close>

theorem compute_secondary_structure_lifecycle:
  "\<exists>started.
     start (RNAfoldApp_init sequence None
              (Some (case bin_path_arg of None \<Rightarrow> ''RNAfold'' | Some p \<Rightarrow> p)))
       = (Inr (), started) \<and>
     (join outcome started = None \<longrightarrow>
        compute_secondary_structure outcome sequence bin_path_arg = None) \<and>
     (\<forall>e failed. join outcome started = Some (Inl e, failed) \<longrightarrow>
        compute_secondary_structure outcome sequence bin_path_arg = Some (Inl e)) \<and>
     (\<forall>joined. join outcome started = Some (Inr (), joined) \<longrightarrow>
        (\<exists>db fe. compute_secondary_structure outcome sequence bin_path_arg = Some (Inr (db, fe)) \<and>
                 get_dot_bracket joined = (Inr db, joined) \<and>
                 get_free_energy joined = (Inr fe, joined)))"
proof -
  let ?app = "RNAfoldApp_init sequence None
                (Some (case bin_path_arg of None \<Rightarrow> ''RNAfold'' | Some p \<Rightarrow> p))"
  let ?started = "(run ?app)\<lparr>app_state := RUNNING\<rparr>"
  have st: "start ?app = (Inr (), ?started)" by (rule start_init)
  have a: "join outcome ?started = None \<longrightarrow>
      compute_secondary_structure outcome sequence bin_path_arg = None"
    by (simp add: compute_secondary_structure_def st Let_def)
  have b: "\<forall>e failed. join outcome ?started = Some (Inl e, failed) \<longrightarrow>
        compute_secondary_structure outcome sequence bin_path_arg = Some (Inl e)"
    by (simp add: compute_secondary_structure_def st Let_def)
  have c: "\<forall>joined. join outcome ?started = Some (Inr (), joined) \<longrightarrow>
        (\<exists>db fe. compute_secondary_structure outcome sequence bin_path_arg = Some (Inr (db, fe)) \<and>
                 get_dot_bracket joined = (Inr db, joined) \<and>
                 get_free_energy joined = (Inr fe, joined))"
  proof (intro allI impI)
    fix joined
    assume j: "join outcome ?started = Some (Inr (), joined)"
    from join_succeeds [OF j] obtain db fe where
      "app_state joined = JOINED" "dotbracket joined = Some db" "free_energy joined = Some fe"
      by auto
    then have "get_dot_bracket joined = (Inr db, joined)"
      "get_free_energy joined = (Inr fe, joined)"
      by (simp_all add: get_dot_bracket_def get_free_energy_def requires_state_def getattr_def)
    then show "\<exists>db fe.
        compute_secondary_structure outcome sequence bin_path_arg = Some (Inr (db, fe)) \<and>
        get_dot_bracket joined = (Inr db, joined) \<and>
        get_free_energy joined = (Inr fe, joined)"
      using j by (simp add: compute_secondary_structure_def st Let_def)
  qed
  show ?thesis by (rule exI [of _ ?started]) (intro conjI st a b c)
qed

lemma init_default_path:
  "RNAfoldApp_init s t (Some ''RNAfold'') = RNAfoldApp_init s t None"
  by (simp add: RNAfoldApp_init_def)

lemma get_dot_bracket_sample:
  "get_dot_bracket sample_joined = (Inr ''(((.((((.......)).)))))....'', sample_joined)"
  by (simp add: get_dot_bracket_def requires_state_def getattr_def sample_joined_eq)

lemma get_free_energy_sample:
  "get_free_energy sample_joined = (Inr (Finite (- 13 / 10)), sample_joined)"
  by (simp add: get_free_energy_def requires_state_def getattr_def sample_joined_eq)

lemma join_sample_joined:
  "join (Some (0, sample_stdout, [])) sample_started = Some (Inr (), sample_joined)"
  by (simp add: join_sample sample_joined_eq)

theorem compute_secondary_structure_lifecycle_witness:
  "compute_secondary_structure (Some (0, sample_stdout, [])) sample_sequence None =
     Some (Inr (''(((.((((.......)).)))))....'', Finite (- 13 / 10)))"
proof -
  from compute_secondary_structure_lifecycle [of sample_sequence None "Some (0, sample_stdout, [])"]
  obtain started where
    s: "start (RNAfoldApp_init sample_sequence None (Some ''RNAfold'')) = (Inr (), started)" and
    j: "\<forall>joined. join (Some (0, sample_stdout, [])) started = Some (Inr (), joined) \<longrightarrow>
        (\<exists>db fe. compute_secondary_structure (Some (0, sample_stdout, [])) sample_sequence None
                    = Some (Inr (db, fe)) \<and>
                 get_dot_bracket joined = (Inr db, joined) \<and>
                 get_free_energy joined = (Inr fe, joined))"
    by auto
  from s have "started = sample_started"
    by (simp add: sample_started_def init_default_path)
  with j join_sample_joined obtain db fe where
    r: "compute_secondary_structure (Some (0, sample_stdout, [])) sample_sequence None
          = Some (Inr (db, fe))"
      "get_dot_bracket sample_joined = (Inr db, sample_joined)"
      "get_free_energy sample_joined = (Inr fe, sample_joined)"
    by blast
  then show ?thesis
    by (simp add: get_dot_bracket_sample get_free_energy_sample)
qed

section \<open>Construction with defaults\<close>

text \<open>
  Claim C8. For every sequence, an application constructed without temperature and
  binary path has temperature 37 (kept as the string \<^verbatim>\<open>"37"\<close>), binary name
  \<^verbatim>\<open>RNAfold\<close> and the single-sequence record as input; the application accepts its input on
  standard input; \<^verbatim>\<open>run\<close> sets the argument list of any application to exactly
  \<^verbatim>\<open>--noPS\<close>; and the process that \<^verbatim>\<open>start\<close> spawns has that command, that argument list and
  the record piped to standard input.
\<close>

theorem default_construction_and_run:
  "temperature (RNAfoldApp_init s None None) = Some ''37'' \<and>
   base_temperature (RNAfoldApp_init s None None) = 37 \<and>
   bin_path (RNAfoldApp_init s None None) = ''RNAfold'' \<and>
   fasta_file (RNAfoldApp_init s None None) = [s] \<and>
   accepts_stdin \<and>
   arguments (run self) = [''--noPS''] \<and>
   process (run self) =
     Some \<lparr>command = bin_path self, args = [''--noPS''],
           stdin_payload = Some (fasta_file self)\<rparr> \<and>
   process (snd (start (RNAfoldApp_init s None None))) =
     Some \<lparr>command = ''RNAfold'', args = [''--noPS''], stdin_payload = Some [s]\<rparr>"
  unfolding snd_start_init
  by (simp add: run_def BaseFoldApp_run_def set_arguments_def RNAfoldApp_init_def
      BaseFoldApp_init_def set_sequence_def accepts_stdin_def Let_def str_int_37)

section \<open>The output value index\<close>

text \<open>
  Claim C9. \<^verbatim>\<open>XTCFile.output_value_index\<close> is a fixed lookup: 0 for \<^verbatim>\<open>coord\<close>, 1 for
  \<^verbatim>\<open>time\<close>, 3 for \<^verbatim>\<open>box\<close>, and no value for every other string; the index 2 is never
  produced.
\<close>

theorem output_value_index_lookup:
  "output_value_index ''coord'' = Some 0 \<and>
   output_value_index ''time'' = Some 1 \<and>
   output_value_index ''box'' = Some 3 \<and>
   (v \<notin> {''coord'', ''time'', ''box''} \<longrightarrow> output_value_index v = None) \<and>
   output_value_index v \<noteq> Some 2"
  by (simp add: output_value_index_def)

theorem output_value_index_lookup_witness:
  "''velocity'' \<notin> {''coord'', ''time'', ''box''} \<and>
   output_value_index ''velocity'' = None \<and>
   output_value_index ''velocity'' \<noteq> Some 2"
  using output_value_index_lookup [of "''velocity''"] by simp

section \<open>Accessors in the JOINED state\<close>

text \<open>
  Claim C10. In state JOINED the accessors \<^verbatim>\<open>get_free_energy\<close>, \<^verbatim>\<open>get_dot_bracket\<close> and
  \<^verbatim>\<open>get_base_pairs\<close> only read: each returns the application with every attribute
  unchanged, so a second call returns what the first returned. \<^verbatim>\<open>get_free_energy\<close> and
  \<^verbatim>\<open>get_dot_bracket\<close> return the stored attributes, and \<^verbatim>\<open>get_base_pairs\<close> decodes
  whatever notation the application holds at the call: nothing of the decoding is kept.
\<close>

theorem accessors_read_only:
  "app_state self = JOINED \<Longrightarrow>
   get_free_energy self = (getattr (free_energy self), self) \<and>
   get_dot_bracket self = (getattr (dotbracket self), self) \<and>
   snd (get_base_pairs self) = self \<and>
   get_free_energy (snd (get_free_energy self)) = get_free_energy self \<and>
   get_dot_bracket (snd (get_dot_bracket self)) = get_dot_bracket self \<and>
   get_base_pairs (snd (get_base_pairs self)) = get_base_pairs self \<and>
   (\<forall>db. fst (get_base_pairs (self\<lparr>dotbracket := Some db\<rparr>)) = base_pairs_from_dot_bracket db)"
  by (simp add: get_free_energy_def get_dot_bracket_def get_base_pairs_def requires_state_def
      getattr_def split: option.splits)

theorem accessors_read_only_witness:
  "get_free_energy sample_joined = (Inr (Finite (- 13 / 10)), sample_joined) \<and>
   get_dot_bracket sample_joined = (Inr ''(((.((((.......)).)))))....'', sample_joined) \<and>
   snd (get_base_pairs sample_joined) = sample_joined \<and>
   get_base_pairs (snd (get_base_pairs sample_joined)) = get_base_pairs sample_joined \<and>
   fst (get_base_pairs (sample_joined\<lparr>dotbracket := Some ''(.)''\<rparr>)) = Inr [(0, 2)]"
proof -
  have bp: "base_pairs_from_dot_bracket ''(.)'' = Inr [(0, 2)]"
    by (simp add: base_pairs_from_dot_bracket_def)
  have fe: "getattr (free_energy sample_joined) = Inr (Finite (- 13 / 10))"
    and db: "getattr (dotbracket sample_joined) = Inr ''(((.((((.......)).)))))....''"
    by (simp_all add: sample_joined_eq getattr_def)
  from accessors_read_only [OF sample_joined_state] show ?thesis
    by (simp add: fe db bp)
qed

end
